theory Spec2Isabelle
  imports Complex_Main "HOL-Library.Sublist"
begin

section \<open>Open Academy: courses and sessions\<close>

text \<open>
  A shallow embedding of \<^verbatim>\<open>models/models.py\<close>: the two models \<^verbatim>\<open>Course\<close> and
  \<^verbatim>\<open>Session\<close>, the methods they define, and the declarative constraints they register.

  Conventions of the embedding.
  \<^item> A stored record is a HOL \<^theory_text>\<open>record\<close> with the fields of the Python class; the table
    of a model is the list of its rows, in insertion order.
  \<^item> A field that can be empty (\<^verbatim>\<open>False\<close> in the ORM, \<^verbatim>\<open>NULL\<close> in the table) is an
    \<open>option\<close>. A \<^verbatim>\<open>Float\<close> or \<^verbatim>\<open>Integer\<close> field is never empty when read: an unset
    one reads as zero, which is also what Python's truth test \<^verbatim>\<open>not x\<close> checks.
  \<^item> \<^verbatim>\<open>Float\<close> values are modelled as exact real numbers; the binary rounding of
    Python's floats is outside the model. The rounding to two decimals of the field
    \<open>duration\<close>, declared \<^verbatim>\<open>digits=(6, 2)\<close>, is modelled (\<open>float_round\<close>).
  \<^item> Every exception is a value of type \<open>error\<close>; a method that can raise returns
    \<open>error + 'a\<close>.
  \<^item> A method written as \<^verbatim>\<open>for r in self: ...\<close> treats each record of the recordset on
    its own; its definition here is the loop body for one record \<open>r\<close>, and the loop is
    \<open>map\<close> (or, where the body can raise, the first failure).
\<close>

subsection \<open>Errors\<close>

datatype error =
    ValidationError string
  | IntegrityError string
  | ZeroDivisionError
  | OverflowError

subsection \<open>The model Course\<close>

type_synonym user_id = nat
type_synonym partner_id = nat
type_synonym course_id = nat
type_synonym session_id = nat

record course =
  name :: string
  description :: "string option"
  responsible_id :: "user_id option"
  session_ids :: "session_id list"

subsubsection \<open>The operator \<^verbatim>\<open>=like\<close>\<close>

text \<open>
  The search domain \<^verbatim>\<open>[('name', '=like', p)]\<close> is the SQL condition \<^verbatim>\<open>name LIKE p\<close> with
  the pattern \<open>p\<close> passed as it is. In a \<^verbatim>\<open>LIKE\<close> pattern \<^verbatim>\<open>%\<close> stands for any sequence
  of characters, \<^verbatim>\<open>_\<close> for any single character, and a backslash makes the character
  after it literal; every other character stands for itself, upper and lower case being
  different. \<open>like p s\<close> says that the whole of \<open>s\<close> matches the pattern \<open>p\<close>. (A pattern
  that ends in a lone backslash is rejected by the database; \<open>like\<close> matches nothing with
  it. The pattern built by \<^verbatim>\<open>copy\<close> always ends in \<^verbatim>\<open>%\<close>.)
\<close>

fun like :: "string \<Rightarrow> string \<Rightarrow> bool" where
  "like [] s = (s = [])"
| "like (p # ps) s =
     (if p = CHR ''%'' then
        like ps s \<or> (case s of [] \<Rightarrow> False | c # cs \<Rightarrow> like (p # ps) cs)
      else if p = CHR ''_'' then
        (case s of [] \<Rightarrow> False | c # cs \<Rightarrow> like ps cs)
      else if p = CHR 0x5C then
        (case ps of
           [] \<Rightarrow> False
         | q # qs \<Rightarrow> (case s of [] \<Rightarrow> False | c # cs \<Rightarrow> c = q \<and> like qs cs))
      else
        (case s of [] \<Rightarrow> False | c # cs \<Rightarrow> c = p \<and> like ps cs))"

text \<open>A string in which no character has a special meaning as a \<^verbatim>\<open>LIKE\<close> pattern.\<close>

definition wildcard_free :: "string \<Rightarrow> bool" where
  "wildcard_free n = (CHR ''%'' \<notin> set n \<and> CHR ''_'' \<notin> set n \<and> CHR 0x5C \<notin> set n)"

text \<open>
  \<^verbatim>\<open>search_count(domain)\<close> on the model Course, for the one kind of domain the module
  uses: the number of rows of the table whose \<open>name\<close> matches the pattern.
\<close>

definition search_count :: "course list \<Rightarrow> string \<Rightarrow> nat" where
  "search_count table pattern = length (filter (\<lambda>r. like pattern (course.name r)) table)"

subsubsection \<open>String formatting\<close>

text \<open>\<^verbatim>\<open>"{}".format(n)\<close> for a count \<open>n\<close>: its decimal digits.\<close>

definition digit :: "nat \<Rightarrow> char" where
  "digit d = ''0123456789'' ! d"

fun str :: "nat \<Rightarrow> string" where
  "str n = (if n < 10 then [digit n] else str (n div 10) @ [digit (n mod 10)])"

declare str.simps [simp del]

text \<open>
  What a decimal numeral is, to say what \<open>str\<close> computes: the value of a digit is its
  place among the ten digits, the value of a string of digits is read from the left, and
  the numeral of a number is the string of digits with that value and no leading zero.
\<close>

definition digit_value :: "char \<Rightarrow> nat" where
  "digit_value c = length (takeWhile (\<lambda>x. x \<noteq> c) ''0123456789'')"

definition decimal_value :: "string \<Rightarrow> nat" where
  "decimal_value s = foldl (\<lambda>a c. 10 * a + digit_value c) 0 s"

definition decimal_numeral :: "string \<Rightarrow> bool" where
  "decimal_numeral s =
     (s \<noteq> [] \<and> list_all (\<lambda>c. digit_value c < 10) s \<and> (hd s = CHR ''0'' \<longrightarrow> s = ''0''))"

subsubsection \<open>SQL constraints and record creation\<close>

text \<open>
  \<^verbatim>\<open>_sql_constraints\<close> registers two constraints on the table of courses. The condition
  \<^verbatim>\<open>CHECK(name != description)\<close> rejects a row only when the comparison is false, so a row
  whose description is \<^verbatim>\<open>NULL\<close> passes; \<^verbatim>\<open>UNIQUE(name)\<close> compares the names as they are
  stored.
\<close>

definition name_description_check :: "course \<Rightarrow> bool" where
  "name_description_check c = (description c \<noteq> Some (course.name c))"

definition name_unique :: "course list \<Rightarrow> bool" where
  "name_unique table = distinct (map course.name table)"

definition name_description_check_message :: string where
  "name_description_check_message = ''The title of the course should not be the description''"

definition name_unique_message :: string where
  "name_unique_message = ''The course title must be unique''"

text \<open>
  Modelled from the spec: the creation of a row by the ORM and the database, which the
  module does not define. The database checks the two constraints when the row is
  committed, the check first, and either refuses the row with the message of the
  constraint (the table stays as it was) or appends it.
\<close>

definition create :: "course list \<Rightarrow> course \<Rightarrow> error + course list" where
  "create table c =
     (if \<not> name_description_check c then Inl (IntegrityError name_description_check_message)
      else if \<not> name_unique (table @ [c]) then Inl (IntegrityError name_unique_message)
      else Inr (table @ [c]))"

subsubsection \<open>\<^verbatim>\<open>Course.copy\<close>\<close>

text \<open>The values of a dictionary of field overrides.\<close>

datatype field_value =
    CharVal string
  | TextVal "string option"
  | Many2oneVal "nat option"

type_synonym vals = "string \<rightharpoonup> field_value"

text \<open>
  Modelled from the spec: the duplication of the base class,
  \<^verbatim>\<open>super(Course, self).copy(default)\<close>, which the module does not define. The new row
  is a clone of the source row with the fields of the dictionary overridden (the
  sessions, a one-to-many field, are not cloned), and is then created.
\<close>

definition copy_data :: "course \<Rightarrow> vals \<Rightarrow> course" where
  "copy_data self dflt =
     \<lparr> name = (case dflt ''name'' of Some (CharVal n) \<Rightarrow> n | _ \<Rightarrow> course.name self),
       description = (case dflt ''description'' of Some (TextVal d) \<Rightarrow> d | _ \<Rightarrow> description self),
       responsible_id =
         (case dflt ''responsible_id'' of Some (Many2oneVal u) \<Rightarrow> u | _ \<Rightarrow> responsible_id self),
       session_ids = [] \<rparr>"

definition super_copy :: "course list \<Rightarrow> course \<Rightarrow> vals \<Rightarrow> error + course list" where
  "super_copy table self dflt = create table (copy_data self dflt)"

text \<open>
  The body of \<^verbatim>\<open>copy\<close> up to the call of the base class: \<open>copied_count\<close> is the result
  of the search, \<open>new_name\<close> the title chosen from it, \<open>copy_default\<close> the dictionary
  handed to the base class. The argument \<open>dflt\<close> (Python's \<^verbatim>\<open>default\<close>) is \<open>None\<close> for \<^verbatim>\<open>None\<close>.
\<close>

definition copied_count :: "course list \<Rightarrow> course \<Rightarrow> nat" where
  "copied_count table self = search_count table (''Copy of '' @ course.name self @ ''%'')"

definition new_name :: "course list \<Rightarrow> course \<Rightarrow> string" where
  "new_name table self =
     (if copied_count table self = 0 then ''Copy of '' @ course.name self
      else ''Copy of '' @ course.name self @ '' ('' @ str (copied_count table self) @ '')'')"

definition copy_default :: "course list \<Rightarrow> course \<Rightarrow> vals option \<Rightarrow> vals" where
  "copy_default table self dflt =
     (let dflt = (case dflt of None \<Rightarrow> Map.empty | Some d \<Rightarrow> d)
      in dflt(''name'' \<mapsto> CharVal (new_name table self)))"

definition copy :: "course list \<Rightarrow> course \<Rightarrow> vals option \<Rightarrow> error + course list" where
  "copy table self dflt = super_copy table self (copy_default table self dflt)"

text \<open>
  The reading of the specification: the rows whose name begins, character for character,
  with \<^verbatim>\<open>Copy of \<close> followed by the name of the source row.
\<close>

definition literal_prefix_count :: "course list \<Rightarrow> course \<Rightarrow> nat" where
  "literal_prefix_count table self =
     length (filter (\<lambda>r. prefix (''Copy of '' @ course.name self) (course.name r)) table)"

subsubsection \<open>The tables that can arise\<close>

text \<open>
  A table of courses satisfies the two constraints when every row passes the check and
  no two rows share a name. The tables that can arise are those built from the empty
  table by creating rows and by copying rows already there.
\<close>

definition course_table_ok :: "course list \<Rightarrow> bool" where
  "course_table_ok table = (list_all name_description_check table \<and> name_unique table)"

inductive reachable :: "course list \<Rightarrow> bool" where
  empty: "reachable []"
| created: "reachable table \<Longrightarrow> create table c = Inr table' \<Longrightarrow> reachable table'"
| copied: "reachable table \<Longrightarrow> self \<in> set table \<Longrightarrow> copy table self dflt = Inr table'
     \<Longrightarrow> reachable table'"

code_pred reachable .

subsection \<open>Dates and time spans\<close>

text \<open>
  A \<^verbatim>\<open>Date\<close> field holds a calendar day, modelled as the number of the day as
  \<^verbatim>\<open>date.toordinal\<close> counts it: day 1 is 0001-01-01 and day 3652059 is 9999-12-31, the
  first and the last day of Python's calendar, and every value of a \<^verbatim>\<open>Date\<close> field lies
  between them. A \<^verbatim>\<open>datetime\<close> is a number of microseconds since midnight of day 0, and
  a \<^verbatim>\<open>timedelta\<close> a number of microseconds, which is the resolution of both Python
  types.
\<close>

type_synonym date = int
type_synonym datetime = int
type_synonym timedelta = int

text \<open>\<^verbatim>\<open>fields.Datetime.from_string\<close> on the value of a \<^verbatim>\<open>Date\<close> field: midnight of that day.\<close>

definition from_string :: "date \<Rightarrow> datetime" where
  "from_string d = d * 86400000000"

text \<open>
  \<^verbatim>\<open>timedelta(days=d, seconds=s)\<close> with a float \<open>d\<close> and an integer \<open>s\<close>: the span is
  kept to the nearest microsecond (\<open>round\<close> takes a half upward; the durations the
  field stores, with two decimals, are whole numbers of seconds). The constructor raises
  \<^verbatim>\<open>OverflowError\<close> when the whole days of the span, rounded down, are more than
  999999999 in either direction.
\<close>

definition timedelta :: "real \<Rightarrow> int \<Rightarrow> error + timedelta" where
  "timedelta days seconds =
     (let td = round (days * 86400000000) + seconds * 1000000
      in if 999999999 < \<bar>td div 86400000000\<bar> then Inl OverflowError else Inr td)"

text \<open>
  \<^verbatim>\<open>datetime + timedelta\<close> raises \<^verbatim>\<open>OverflowError\<close> when the day of the result is not a
  day of the calendar.
\<close>

definition datetime_add :: "datetime \<Rightarrow> timedelta \<Rightarrow> error + datetime" where
  "datetime_add dt td =
     (let t = dt + td
      in if 0 < t div 86400000000 \<and> t div 86400000000 \<le> 3652059 then Inr t
         else Inl OverflowError)"

text \<open>The attribute \<^verbatim>\<open>.days\<close> of a time span: its whole days, rounded down.\<close>

definition days :: "timedelta \<Rightarrow> int" where
  "days td = td div 86400000000"

text \<open>Assigning a \<^verbatim>\<open>datetime\<close> to a \<^verbatim>\<open>Date\<close> field keeps its day and drops the time.\<close>

definition to_date :: "datetime \<Rightarrow> date" where
  "to_date dt = dt div 86400000000"

subsection \<open>The model Session\<close>

record session =
  name :: string
  start_date :: "date option"
  duration :: real
  seats :: int
  active :: bool
  color :: int
  instructor_id :: "partner_id option"
  course_id :: course_id
  attendee_ids :: "partner_id list"
  taken_seats :: real
  end_date :: "date option"
  hours :: real
  attendees_count :: int

subsubsection \<open>Seat occupancy\<close>

text \<open>Python's \<^verbatim>\<open>/\<close> on floats raises when the divisor is zero.\<close>

definition truediv :: "real \<Rightarrow> real \<Rightarrow> error + real" where
  "truediv a b = (if b = 0 then Inl ZeroDivisionError else Inr (a / b))"

text \<open>
  The method \<^verbatim>\<open>_taken_seats\<close> (the field of the same name is \<open>taken_seats\<close>).
\<close>

definition compute_taken_seats :: "session \<Rightarrow> error + session" where
  "compute_taken_seats record' =
     (if seats record' = 0 then Inr (record'\<lparr>taken_seats := 0\<rparr>)
      else
        (case truediv (100 * real (length (attendee_ids record'))) (real_of_int (seats record')) of
           Inl e \<Rightarrow> Inl e
         | Inr q \<Rightarrow> Inr (record'\<lparr>taken_seats := q\<rparr>)))"

definition get_attendees_count :: "session \<Rightarrow> session" where
  "get_attendees_count r = r\<lparr>attendees_count := int (length (attendee_ids r))\<rparr>"

subsubsection \<open>End date and duration\<close>

definition get_end_date :: "session \<Rightarrow> error + session" where
  "get_end_date r =
     (if \<not> (start_date r \<noteq> None \<and> duration r \<noteq> 0) then Inr (r\<lparr>end_date := start_date r\<rparr>)
      else
        (let start = from_string (the (start_date r))
         in (case timedelta (duration r) (- 1) of
               Inl e \<Rightarrow> Inl e
             | Inr duration' \<Rightarrow>
                 (case datetime_add start duration' of
                    Inl e \<Rightarrow> Inl e
                  | Inr t \<Rightarrow> Inr (r\<lparr>end_date := Some (to_date t)\<rparr>)))))"

text \<open>
  In \<^verbatim>\<open>_set_end_date\<close> the difference of two days of the calendar is always a span that
  \<^verbatim>\<open>timedelta\<close> can hold, and the value assigned to \<open>duration\<close> is a whole number, which
  the rounding of the field leaves as it is.
\<close>

definition set_end_date :: "session \<Rightarrow> session" where
  "set_end_date r =
     (if \<not> (start_date r \<noteq> None \<and> end_date r \<noteq> None) then r
      else
        (let start_date' = from_string (the (start_date r));
             end_date' = from_string (the (end_date r))
         in r\<lparr>duration := of_int (days (end_date' - start_date') + 1)\<rparr>))"

subsubsection \<open>Hours and duration\<close>

text \<open>
  Modelled from the spec: the rounding of a field to its declared precision, which the
  ORM applies and the module only declares. The field \<open>duration\<close> is declared
  \<^verbatim>\<open>Float(digits=(6, 2))\<close>: a value assigned to it is rounded to two decimals, a half
  away from zero (\<^verbatim>\<open>float_round\<close> of the ORM with two digits). The field \<open>hours\<close>
  declares no digits and keeps the value assigned.
\<close>

definition float_round :: "real \<Rightarrow> real" where
  "float_round x =
     (if x < 0 then - (of_int \<lfloor>- x * 100 + 1 / 2\<rfloor> / 100) else of_int \<lfloor>x * 100 + 1 / 2\<rfloor> / 100)"

definition get_hours :: "session \<Rightarrow> session" where
  "get_hours r = r\<lparr>hours := duration r * 24\<rparr>"

definition set_hours :: "session \<Rightarrow> session" where
  "set_hours r = r\<lparr>duration := float_round (hours r / 24)\<rparr>"

subsubsection \<open>The instructor is not an attendee\<close>

definition instructor_message :: string where
  "instructor_message = ''A session's instructor can't be an attendee''"

definition check_instructor_not_in_attendees :: "session \<Rightarrow> error + unit" where
  "check_instructor_not_in_attendees r =
     (if instructor_id r \<noteq> None \<and> the (instructor_id r) \<in> set (attendee_ids r)
      then Inl (ValidationError instructor_message)
      else Inr ())"

text \<open>
  Modelled from the spec: a write to a session by the ORM, which the module does not
  define, for the two fields the constraint is registered on
  (\<^verbatim>\<open>@api.constrains('instructor_id', 'attendee_ids')\<close>). \<open>None\<close> in \<open>session_vals\<close> means
  that the dictionary of the write has no entry for the field; \<open>Some None\<close> for the
  instructor empties the field. The ORM stores the values, recomputes the stored count
  of attendees when the roster is written, and runs the constraint when one of its two
  fields is written; if the constraint raises, the write fails with that error, the
  transaction is aborted and the row keeps the state it had (\<open>committed\<close>).
\<close>

record session_vals =
  instructor_id_val :: "partner_id option option"
  attendee_ids_val :: "partner_id list option"

definition apply_vals :: "session \<Rightarrow> session_vals \<Rightarrow> session" where
  "apply_vals r v =
     (let r1 = (case instructor_id_val v of None \<Rightarrow> r | Some i \<Rightarrow> r\<lparr>instructor_id := i\<rparr>)
      in (case attendee_ids_val v of
            None \<Rightarrow> r1
          | Some ids \<Rightarrow> get_attendees_count (r1\<lparr>attendee_ids := ids\<rparr>)))"

definition write_session :: "session \<Rightarrow> session_vals \<Rightarrow> error + session" where
  "write_session r v =
     (let r' = apply_vals r v
      in if instructor_id_val v \<noteq> None \<or> attendee_ids_val v \<noteq> None
         then (case check_instructor_not_in_attendees r' of Inl e \<Rightarrow> Inl e | Inr u \<Rightarrow> Inr r')
         else Inr r')"

definition committed :: "session \<Rightarrow> error + session \<Rightarrow> session" where
  "committed r res = (case res of Inl e \<Rightarrow> r | Inr r' \<Rightarrow> r')"

section \<open>Properties of Course\<close>

subsection \<open>Matching with \<^verbatim>\<open>LIKE\<close>\<close>

lemma like_percent: "like ''%'' s"
  by (induction s) simp_all

lemma like_literal_prefix: "wildcard_free p \<Longrightarrow> like (p @ ''%'') s = prefix p s"
proof (induction p arbitrary: s)
  case Nil
  then show ?case using like_percent by simp
next
  case (Cons a p)
  then have "wildcard_free p" and "a \<noteq> CHR ''%''" and "a \<noteq> CHR ''_''" and "a \<noteq> CHR 0x5C"
    by (auto simp: wildcard_free_def)
  with Cons.IH show ?case
    by (cases s) auto
qed

lemma wildcard_free_Copy_of: "wildcard_free n \<Longrightarrow> wildcard_free (''Copy of '' @ n)"
  by (simp add: wildcard_free_def)

lemma like_Copy_of:
  assumes "wildcard_free n"
  shows "like (''Copy of '' @ n @ ''%'') s = prefix (''Copy of '' @ n) s"
  using like_literal_prefix [OF wildcard_free_Copy_of [OF assms], of s] by simp

subsection \<open>The count of existing copies\<close>

text \<open>
  Claim C4, as it is written, says that the count taken by \<^verbatim>\<open>copy\<close> is the number of
  rows whose name begins literally with \<^verbatim>\<open>Copy of \<close> and the name of the source row,
  whatever characters that name contains. It is not: the name is pasted as it is into
  the pattern, in front of the \<^verbatim>\<open>%\<close> that \<^verbatim>\<open>copy\<close> appends, so a \<^verbatim>\<open>%\<close> or a \<^verbatim>\<open>_\<close> in the
  name is a wildcard as well. For a source row named \<^verbatim>\<open>100%\<close> and a table holding a row
  named \<^verbatim>\<open>Copy of 1000\<close> the search counts one row, and no name in the table begins with
  \<^verbatim>\<open>Copy of 100%\<close>; likewise for a source row named \<^verbatim>\<open>A_1\<close> and a row named
  \<^verbatim>\<open>Copy of AB1\<close>.
\<close>

theorem copied_count_wildcard_counterexample:
  "copied_count
     [\<lparr>course.name = ''Copy of 1000'', description = None, responsible_id = None,
       session_ids = []\<rparr>]
     \<lparr>course.name = ''100%'', description = None, responsible_id = None,
      session_ids = []\<rparr>
   \<noteq> literal_prefix_count
     [\<lparr>course.name = ''Copy of 1000'', description = None, responsible_id = None,
       session_ids = []\<rparr>]
     \<lparr>course.name = ''100%'', description = None, responsible_id = None,
      session_ids = []\<rparr>
   \<and> copied_count
     [\<lparr>course.name = ''Copy of AB1'', description = None, responsible_id = None,
       session_ids = []\<rparr>]
     \<lparr>course.name = ''A_1'', description = None, responsible_id = None,
      session_ids = []\<rparr>
   \<noteq> literal_prefix_count
     [\<lparr>course.name = ''Copy of AB1'', description = None, responsible_id = None,
       session_ids = []\<rparr>]
     \<lparr>course.name = ''A_1'', description = None, responsible_id = None,
      session_ids = []\<rparr>"
  by (simp add: copied_count_def search_count_def literal_prefix_count_def)

text \<open>
  Claim C4, amended: the count is the number of rows whose name matches, as a
  case-sensitive \<^verbatim>\<open>LIKE\<close> pattern, \<^verbatim>\<open>Copy of \<close> followed by the name of the source row
  and \<^verbatim>\<open>%\<close>; when the name of the source row contains none of \<^verbatim>\<open>%\<close>, \<^verbatim>\<open>_\<close> and
  backslash, this is the number of rows whose name begins literally with \<^verbatim>\<open>Copy of \<close>
  followed by that name.
\<close>

theorem copied_count_is_like_count:
  "copied_count table self =
     length (filter (\<lambda>r. like (''Copy of '' @ course.name self @ ''%'') (course.name r)) table)
   \<and> (wildcard_free (course.name self) \<longrightarrow>
        copied_count table self = literal_prefix_count table self)"
proof (intro conjI impI)
  show "copied_count table self =
     length (filter (\<lambda>r. like (''Copy of '' @ course.name self @ ''%'') (course.name r)) table)"
    by (simp only: copied_count_def search_count_def)
next
  assume wf: "wildcard_free (course.name self)"
  show "copied_count table self = literal_prefix_count table self"
    by (simp only: copied_count_def search_count_def literal_prefix_count_def like_Copy_of [OF wf])
qed

text \<open>
  An instance: with rows named \<^verbatim>\<open>Copy of Intro (1)\<close> and \<^verbatim>\<open>copy of Intro\<close>, copying the
  row \<^verbatim>\<open>Intro\<close> counts the first and not the second, which differs in case.
\<close>

theorem copied_count_is_like_count_witness:
  "wildcard_free ''Intro''
   \<and> copied_count
       [\<lparr>course.name = ''Copy of Intro (1)'', description = None, responsible_id = None,
         session_ids = []\<rparr>,
        \<lparr>course.name = ''copy of Intro'', description = None, responsible_id = None,
         session_ids = []\<rparr>]
       \<lparr>course.name = ''Intro'', description = None, responsible_id = None,
        session_ids = []\<rparr>
     = 1
   \<and> literal_prefix_count
       [\<lparr>course.name = ''Copy of Intro (1)'', description = None, responsible_id = None,
         session_ids = []\<rparr>,
        \<lparr>course.name = ''copy of Intro'', description = None, responsible_id = None,
         session_ids = []\<rparr>]
       \<lparr>course.name = ''Intro'', description = None, responsible_id = None,
        session_ids = []\<rparr>
     = 1"
proof -
  let ?intro = "\<lparr>course.name = ''Intro'', description = None, responsible_id = None,
                 session_ids = []\<rparr>"
  let ?table = "[\<lparr>course.name = ''Copy of Intro (1)'', description = None, responsible_id = None,
                  session_ids = []\<rparr>,
                 \<lparr>course.name = ''copy of Intro'', description = None, responsible_id = None,
                  session_ids = []\<rparr>]"
  have wf: "wildcard_free (course.name ?intro)"
    by (simp add: wildcard_free_def)
  have n: "literal_prefix_count ?table ?intro = 1"
    by (simp add: literal_prefix_count_def)
  from copied_count_is_like_count [of ?table ?intro] wf
  have "copied_count ?table ?intro = literal_prefix_count ?table ?intro"
    by blast
  with n have "copied_count ?table ?intro = 1"
    by (simp only:)
  with wf n show ?thesis by simp
qed

subsection \<open>The title of a copy\<close>

lemma create_Inr:
  "create table c = Inr table' \<Longrightarrow>
     table' = table @ [c] \<and> name_description_check c \<and> name_unique (table @ [c])"
  by (simp add: create_def split: if_splits)

lemma digit_value_digit:
  assumes "k < 10"
  shows "digit_value (digit k) = k"
proof -
  from assms have "k = 0 \<or> k = 1 \<or> k = 2 \<or> k = 3 \<or> k = 4 \<or> k = 5 \<or> k = 6 \<or> k = 7 \<or> k = 8 \<or> k = 9"
    by arith
  then show ?thesis
    by (elim disjE) (simp_all add: digit_def digit_value_def)
qed

lemma digit_zero:
  assumes "k < 10" and "digit k = CHR ''0''"
  shows "k = 0"
proof -
  have "digit_value (digit k) = digit_value CHR ''0''"
    using assms(2) by simp
  then show ?thesis
    using digit_value_digit [OF assms(1)] by (simp add: digit_value_def)
qed

lemma decimal_value_snoc: "decimal_value (s @ [c]) = 10 * decimal_value s + digit_value c"
  by (simp add: decimal_value_def)

lemma str_decimal: "decimal_numeral (str n) \<and> decimal_value (str n) = n"
proof (induction n rule: str.induct)
  case (1 n)
  show ?case
  proof (cases "n < 10")
    case True
    then have s: "str n = [digit n]"
      by (subst str.simps) simp
    have "decimal_value [digit n] = n"
      using digit_value_digit [OF True] by (simp add: decimal_value_def)
    moreover have "decimal_numeral [digit n]"
      using digit_value_digit [OF True] digit_zero [OF True] True
      by (auto simp: decimal_numeral_def digit_def)
    ultimately show ?thesis by (simp add: s)
  next
    case False
    then have s: "str n = str (n div 10) @ [digit (n mod 10)]"
      by (subst str.simps) simp
    from False "1.IH" have num: "decimal_numeral (str (n div 10))"
      and val: "decimal_value (str (n div 10)) = n div 10"
      by simp_all
    have m: "n mod 10 < 10" by simp
    from num have ne: "str (n div 10) \<noteq> []"
      by (simp add: decimal_numeral_def)
    have "hd (str (n div 10)) \<noteq> CHR ''0''"
    proof
      assume "hd (str (n div 10)) = CHR ''0''"
      with num have "str (n div 10) = ''0''"
        by (simp add: decimal_numeral_def)
      then have "decimal_value (str (n div 10)) = 0"
        by (simp add: decimal_value_def digit_value_def)
      with val False show False by simp
    qed
    with num ne have "decimal_numeral (str (n div 10) @ [digit (n mod 10)])"
      using digit_value_digit [OF m] by (simp add: decimal_numeral_def)
    moreover have "decimal_value (str (n div 10) @ [digit (n mod 10)]) = n"
      using val digit_value_digit [OF m] by (simp add: decimal_value_snoc)
    ultimately show ?thesis by (simp add: s)
  qed
qed

text \<open>
  Claim C5: the dictionary handed to the base class has under \<^verbatim>\<open>name\<close> the title
  \<^verbatim>\<open>Copy of {name}\<close> when the count is zero and \<^verbatim>\<open>Copy of {name} ({count})\<close> otherwise,
  whatever the caller supplied under \<^verbatim>\<open>name\<close>, where \<^verbatim>\<open>{count}\<close> is the decimal numeral
  of the count; the other entries of the caller's dictionary are kept; and when the copy
  is created, it is the row added to the table and it bears that title.
\<close>

theorem copy_title:
  "copy_default table self dflt ''name'' =
     Some (CharVal
       (if copied_count table self = 0 then ''Copy of '' @ course.name self
        else ''Copy of '' @ course.name self @ '' ('' @ str (copied_count table self) @ '')''))
   \<and> decimal_numeral (str n) \<and> decimal_value (str n) = n
   \<and> (\<forall>k d. k \<noteq> ''name'' \<longrightarrow> copy_default table self (Some d) k = d k)
   \<and> (\<forall>table'. copy table self dflt = Inr table' \<longrightarrow>
         butlast table' = table \<and>
         course.name (last table') =
           (if copied_count table self = 0 then ''Copy of '' @ course.name self
            else ''Copy of '' @ course.name self @ '' ('' @ str (copied_count table self) @ '')''))"
proof (intro conjI allI impI)
  show "copy_default table self dflt ''name'' =
     Some (CharVal
       (if copied_count table self = 0 then ''Copy of '' @ course.name self
        else ''Copy of '' @ course.name self @ '' ('' @ str (copied_count table self) @ '')''))"
    by (simp add: copy_default_def new_name_def)
next
  show "decimal_numeral (str n)" and "decimal_value (str n) = n"
    using str_decimal [of n] by simp_all
next
  fix k :: string and d :: vals
  assume "k \<noteq> ''name''"
  then show "copy_default table self (Some d) k = d k"
    by (simp add: copy_default_def)
next
  fix table'
  assume "copy table self dflt = Inr table'"
  then have t: "table' = table @ [copy_data self (copy_default table self dflt)]"
    using create_Inr by (simp add: copy_def super_copy_def)
  show "butlast table' = table" by (simp add: t)
  show "course.name (last table') =
           (if copied_count table self = 0 then ''Copy of '' @ course.name self
            else ''Copy of '' @ course.name self @ '' ('' @ str (copied_count table self) @ '')'')"
    by (simp add: t copy_data_def copy_default_def new_name_def)
qed

text \<open>
  An instance: copying the course \<^verbatim>\<open>Intro\<close> when no row matches adds \<^verbatim>\<open>Copy of Intro\<close>;
  copying it again, with a caller who asks for the name \<^verbatim>\<open>Other\<close>, adds
  \<^verbatim>\<open>Copy of Intro (1)\<close>; and with ten copies in the table the next title is
  \<^verbatim>\<open>Copy of Intro (10)\<close>.
\<close>

theorem copy_title_witness:
  "copy
     [\<lparr>course.name = ''Intro'', description = None, responsible_id = None,
       session_ids = []\<rparr>]
     \<lparr>course.name = ''Intro'', description = None, responsible_id = None,
      session_ids = []\<rparr>
     None
   = Inr
     [\<lparr>course.name = ''Intro'', description = None, responsible_id = None,
       session_ids = []\<rparr>,
      \<lparr>course.name = ''Copy of Intro'', description = None, responsible_id = None,
       session_ids = []\<rparr>]
   \<and> copy_default
     [\<lparr>course.name = ''Intro'', description = None, responsible_id = None,
       session_ids = []\<rparr>]
     \<lparr>course.name = ''Intro'', description = None, responsible_id = None,
      session_ids = []\<rparr>
     None ''name''
   = Some (CharVal ''Copy of Intro'')
   \<and> copy
     [\<lparr>course.name = ''Intro'', description = None, responsible_id = None,
       session_ids = []\<rparr>,
      \<lparr>course.name = ''Copy of Intro'', description = None, responsible_id = None,
       session_ids = []\<rparr>]
     \<lparr>course.name = ''Intro'', description = None, responsible_id = None,
      session_ids = []\<rparr>
     (Some [''name'' \<mapsto> CharVal ''Other''])
   = Inr
     [\<lparr>course.name = ''Intro'', description = None, responsible_id = None,
       session_ids = []\<rparr>,
      \<lparr>course.name = ''Copy of Intro'', description = None, responsible_id = None,
       session_ids = []\<rparr>,
      \<lparr>course.name = ''Copy of Intro (1)'', description = None, responsible_id = None,
       session_ids = []\<rparr>]
   \<and> copy_default
     [\<lparr>course.name = ''Intro'', description = None, responsible_id = None,
       session_ids = []\<rparr>,
      \<lparr>course.name = ''Copy of Intro'', description = None, responsible_id = None,
       session_ids = []\<rparr>]
     \<lparr>course.name = ''Intro'', description = None, responsible_id = None,
      session_ids = []\<rparr>
     (Some [''name'' \<mapsto> CharVal ''Other'']) ''name''
   = Some (CharVal ''Copy of Intro (1)'')
   \<and> copy_default
     [\<lparr>course.name = ''Intro'', description = None, responsible_id = None,
       session_ids = []\<rparr>,
      \<lparr>course.name = ''Copy of Intro'', description = None, responsible_id = None,
       session_ids = []\<rparr>,
      \<lparr>course.name = ''Copy of Intro (1)'', description = None, responsible_id = None,
       session_ids = []\<rparr>,
      \<lparr>course.name = ''Copy of Intro (2)'', description = None, responsible_id = None,
       session_ids = []\<rparr>,
      \<lparr>course.name = ''Copy of Intro (3)'', description = None, responsible_id = None,
       session_ids = []\<rparr>,
      \<lparr>course.name = ''Copy of Intro (4)'', description = None, responsible_id = None,
       session_ids = []\<rparr>,
      \<lparr>course.name = ''Copy of Intro (5)'', description = None, responsible_id = None,
       session_ids = []\<rparr>,
      \<lparr>course.name = ''Copy of Intro (6)'', description = None, responsible_id = None,
       session_ids = []\<rparr>,
      \<lparr>course.name = ''Copy of Intro (7)'', description = None, responsible_id = None,
       session_ids = []\<rparr>,
      \<lparr>course.name = ''Copy of Intro (8)'', description = None, responsible_id = None,
       session_ids = []\<rparr>,
      \<lparr>course.name = ''Copy of Intro (9)'', description = None, responsible_id = None,
       session_ids = []\<rparr>]
     \<lparr>course.name = ''Intro'', description = None, responsible_id = None,
      session_ids = []\<rparr>
     None ''name''
   = Some (CharVal ''Copy of Intro (10)'')"
proof -
  let ?intro = "\<lparr>course.name = ''Intro'', description = None, responsible_id = None,
                 session_ids = []\<rparr>"
  let ?copy0 = "\<lparr>course.name = ''Copy of Intro'', description = None, responsible_id = None,
                 session_ids = []\<rparr>"
  let ?copy1 = "\<lparr>course.name = ''Copy of Intro (1)'', description = None, responsible_id = None,
                 session_ids = []\<rparr>"
  let ?ten = "[?intro, ?copy0, ?copy1,
      \<lparr>course.name = ''Copy of Intro (2)'', description = None, responsible_id = None,
       session_ids = []\<rparr>,
      \<lparr>course.name = ''Copy of Intro (3)'', description = None, responsible_id = None,
       session_ids = []\<rparr>,
      \<lparr>course.name = ''Copy of Intro (4)'', description = None, responsible_id = None,
       session_ids = []\<rparr>,
      \<lparr>course.name = ''Copy of Intro (5)'', description = None, responsible_id = None,
       session_ids = []\<rparr>,
      \<lparr>course.name = ''Copy of Intro (6)'', description = None, responsible_id = None,
       session_ids = []\<rparr>,
      \<lparr>course.name = ''Copy of Intro (7)'', description = None, responsible_id = None,
       session_ids = []\<rparr>,
      \<lparr>course.name = ''Copy of Intro (8)'', description = None, responsible_id = None,
       session_ids = []\<rparr>,
      \<lparr>course.name = ''Copy of Intro (9)'', description = None, responsible_id = None,
       session_ids = []\<rparr>]"
  let ?other = "Some [''name'' \<mapsto> CharVal ''Other'']"
  have n0: "copied_count [?intro] ?intro = 0"
    by (simp add: copied_count_def search_count_def)
  have n1: "copied_count [?intro, ?copy0] ?intro = Suc 0"
    by (simp add: copied_count_def search_count_def)
  have n10: "copied_count ?ten ?intro = 10"
    by (simp add: copied_count_def search_count_def)
  have s1: "str (Suc 0) = ''1''"
    by (subst str.simps) (simp add: digit_def)
  have s10: "str 10 = ''10''"
    by (subst str.simps, subst str.simps) (simp add: digit_def)
  from copy_title [of "[?intro]" ?intro None]
  have "copy_default [?intro] ?intro None ''name'' =
      Some (CharVal
        (if copied_count [?intro] ?intro = 0 then ''Copy of '' @ course.name ?intro
         else ''Copy of '' @ course.name ?intro @ '' (''
           @ str (copied_count [?intro] ?intro) @ '')''))"
    by (rule conjunct1)
  then have t0: "copy_default [?intro] ?intro None ''name'' = Some (CharVal ''Copy of Intro'')"
    by (simp add: n0)
  from copy_title [of "[?intro, ?copy0]" ?intro ?other]
  have "copy_default [?intro, ?copy0] ?intro ?other ''name'' =
      Some (CharVal
        (if copied_count [?intro, ?copy0] ?intro = 0 then ''Copy of '' @ course.name ?intro
         else ''Copy of '' @ course.name ?intro @ '' (''
           @ str (copied_count [?intro, ?copy0] ?intro) @ '')''))"
    by (rule conjunct1)
  then have t1: "copy_default [?intro, ?copy0] ?intro ?other ''name''
      = Some (CharVal ''Copy of Intro (1)'')"
    by (simp add: n1 s1)
  from copy_title [of ?ten ?intro None]
  have "copy_default ?ten ?intro None ''name'' =
      Some (CharVal
        (if copied_count ?ten ?intro = 0 then ''Copy of '' @ course.name ?intro
         else ''Copy of '' @ course.name ?intro @ '' (''
           @ str (copied_count ?ten ?intro) @ '')''))"
    by (rule conjunct1)
  then have t10: "copy_default ?ten ?intro None ''name'' = Some (CharVal ''Copy of Intro (10)'')"
    by (simp add: n10 s10)
  have c0: "copy [?intro] ?intro None = Inr [?intro, ?copy0]"
    by (simp add: copy_def super_copy_def copy_default_def copy_data_def new_name_def n0
        create_def name_description_check_def name_unique_def)
  have c1: "copy [?intro, ?copy0] ?intro ?other = Inr [?intro, ?copy0, ?copy1]"
    by (simp add: copy_def super_copy_def copy_default_def copy_data_def new_name_def n1 s1
        create_def name_description_check_def name_unique_def)
  from c0 t0 c1 t1 t10 show ?thesis by (intro conjI)
qed

subsection \<open>The SQL constraints\<close>

lemma create_ok:
  assumes "course_table_ok table" and "create table c = Inr table'"
  shows "course_table_ok table'"
  using assms create_Inr [OF assms(2)] by (simp add: course_table_ok_def)

lemma reachable_ok: "reachable table \<Longrightarrow> course_table_ok table"
proof (induction rule: reachable.induct)
  case empty
  show ?case by (simp add: course_table_ok_def name_unique_def)
next
  case (created table c table')
  then show ?case by (simp add: create_ok)
next
  case (copied table self dflt table')
  then show ?case by (simp add: copy_def super_copy_def create_ok)
qed

text \<open>
  Claim C8: in every table that can arise, the names are pairwise different and no row
  has a description equal to its name; creating a row whose name is already in the table
  fails with the uniqueness violation, and creating a row whose description equals its
  name fails with the check violation.
\<close>

theorem course_constraints:
  "(reachable table \<longrightarrow>
      distinct (map course.name table) \<and>
      (\<forall>c \<in> set table. description c \<noteq> Some (course.name c)))
   \<and> (course.name c \<in> course.name ` set table \<and> description c \<noteq> Some (course.name c) \<longrightarrow>
        create table c = Inl (IntegrityError ''The course title must be unique''))
   \<and> (description c = Some (course.name c) \<longrightarrow>
        create table c =
          Inl (IntegrityError ''The title of the course should not be the description''))"
proof (intro conjI impI)
  assume "reachable table"
  then have "course_table_ok table" by (rule reachable_ok)
  then show "distinct (map course.name table)"
    and "\<forall>c \<in> set table. description c \<noteq> Some (course.name c)"
    by (simp_all add: course_table_ok_def name_unique_def list_all_iff name_description_check_def)
next
  assume "course.name c \<in> course.name ` set table \<and> description c \<noteq> Some (course.name c)"
  then show "create table c = Inl (IntegrityError ''The course title must be unique'')"
    by (simp add: create_def name_description_check_def name_unique_def name_unique_message_def)
next
  assume "description c = Some (course.name c)"
  then show "create table c =
      Inl (IntegrityError ''The title of the course should not be the description'')"
    by (simp add: create_def name_description_check_def name_description_check_message_def)
qed

text \<open>
  An instance: the table holding the one course \<^verbatim>\<open>Algebra\<close> can arise; a second course
  named \<^verbatim>\<open>Algebra\<close> is refused, and so is a course whose description is its name.
\<close>

theorem course_constraints_witness:
  "reachable
     [\<lparr>course.name = ''Algebra'', description = Some ''Groups and rings'', responsible_id = None,
       session_ids = []\<rparr>]
   \<and> distinct (map course.name
     [\<lparr>course.name = ''Algebra'', description = Some ''Groups and rings'', responsible_id = None,
       session_ids = []\<rparr>])
   \<and> create
     [\<lparr>course.name = ''Algebra'', description = Some ''Groups and rings'', responsible_id = None,
       session_ids = []\<rparr>]
     \<lparr>course.name = ''Algebra'', description = None, responsible_id = None,
      session_ids = []\<rparr>
   = Inl (IntegrityError ''The course title must be unique'')
   \<and> create []
     \<lparr>course.name = ''Algebra'', description = Some ''Algebra'', responsible_id = None,
      session_ids = []\<rparr>
   = Inl (IntegrityError ''The title of the course should not be the description'')"
proof -
  let ?algebra = "\<lparr>course.name = ''Algebra'', description = Some ''Groups and rings'', responsible_id = None,
                   session_ids = []\<rparr>"
  let ?again = "\<lparr>course.name = ''Algebra'', description = None, responsible_id = None,
                 session_ids = []\<rparr>"
  let ?same = "\<lparr>course.name = ''Algebra'', description = Some ''Algebra'', responsible_id = None,
                session_ids = []\<rparr>"
  have "create [] ?algebra = Inr [?algebra]"
    by (simp add: create_def name_description_check_def name_unique_def)
  with reachable.empty have r: "reachable [?algebra]"
    by (rule reachable.created)
  have m: "course.name ?again \<in> course.name ` set [?algebra]
      \<and> description ?again \<noteq> Some (course.name ?again)"
    by simp
  have e: "description ?same = Some (course.name ?same)"
    by simp
  from r course_constraints [of "[?algebra]"]
  have d: "distinct (map course.name [?algebra])"
    by blast
  from m course_constraints [of "[?algebra]" ?again]
  have u: "create [?algebra] ?again = Inl (IntegrityError ''The course title must be unique'')"
    by blast
  from e course_constraints [of "[]" ?same]
  have c: "create [] ?same
      = Inl (IntegrityError ''The title of the course should not be the description'')"
    by blast
  from r d u c show ?thesis by (intro conjI)
qed

section \<open>Properties of Session\<close>

subsection \<open>Days and instants\<close>

lemma div_bounds:
  fixes t D :: int
  assumes "0 < D"
  shows "t div D * D \<le> t \<and> t < (t div D + 1) * D"
proof -
  have "t = t div D * D + t mod D" by simp
  moreover have "0 \<le> t mod D" and "t mod D < D" using assms by simp_all
  moreover have "(t div D + 1) * D = t div D * D + D" by (simp add: algebra_simps)
  ultimately show ?thesis by linarith
qed

lemma day_bounds: "from_string (to_date t) \<le> t \<and> t < from_string (to_date t + 1)"
  unfolding from_string_def to_date_def by (rule div_bounds) simp

lemma days_between: "days (from_string b - from_string a) = b - a"
proof -
  have "from_string b - from_string a = (b - a) * 86400000000"
    by (simp add: from_string_def algebra_simps)
  then show ?thesis by (simp add: days_def)
qed

lemma day_shift:
  fixes sd td D :: int
  assumes "D \<noteq> 0"
  shows "(sd * D + td) div D = sd + td div D"
  using assms by simp

lemma to_date_shift: "to_date (from_string sd + td) = sd + td div 86400000000"
  unfolding from_string_def to_date_def by (rule day_shift) simp

lemma span_whole: "(round (real_of_int n * 86400000000) - 1000000) div 86400000000 = n - 1"
proof -
  have "round (real_of_int n * 86400000000) = n * 86400000000"
    using round_of_int [of "n * 86400000000", where ?'a = real] by simp
  then have "round (real_of_int n * 86400000000) - 1000000
      = (n - 1) * 86400000000 + 86399000000"
    by (simp add: algebra_simps)
  then show ?thesis by simp
qed

subsection \<open>From duration to end date\<close>

lemma get_end_date_absent:
  "start_date r = None \<or> duration r = 0 \<Longrightarrow>
     get_end_date r = Inr (r\<lparr>end_date := start_date r\<rparr>)"
  by (auto simp: get_end_date_def)

lemma get_end_date_present:
  assumes "start_date r = Some sd" and "1 \<le> sd" and "sd \<le> 3652059" and "duration r \<noteq> 0"
  shows "get_end_date r =
     (if 1 \<le> sd + (round (duration r * 86400000000) - 1000000) div 86400000000
         \<and> sd + (round (duration r * 86400000000) - 1000000) div 86400000000 \<le> 3652059
      then Inr (r\<lparr>end_date :=
        Some (sd + (round (duration r * 86400000000) - 1000000) div 86400000000)\<rparr>)
      else Inl OverflowError)"
proof -
  define td where "td = round (duration r * 86400000000) - 1000000"
  define q where "q = td div 86400000000"
  have span: "timedelta (duration r) (- 1)
      = (if 999999999 < \<bar>q\<bar> then Inl OverflowError else Inr td)"
    by (simp add: timedelta_def td_def q_def)
  have day: "(from_string sd + td) div 86400000000 = sd + q"
    using to_date_shift [of sd td] by (simp add: to_date_def q_def)
  have sum: "datetime_add (from_string sd) td
      = (if 1 \<le> sd + q \<and> sd + q \<le> 3652059 then Inr (from_string sd + td)
         else Inl OverflowError)"
    unfolding datetime_add_def Let_def day by auto
  have "get_end_date r =
      (if 1 \<le> sd + q \<and> sd + q \<le> 3652059 then Inr (r\<lparr>end_date := Some (sd + q)\<rparr>)
       else Inl OverflowError)"
  proof (cases "999999999 < \<bar>q\<bar>")
    case True
    with assms(2,3) have "\<not> (1 \<le> sd + q \<and> sd + q \<le> 3652059)" by linarith
    with True assms(1,4) show ?thesis
      by (simp add: get_end_date_def span)
  next
    case False
    with assms(1,4) show ?thesis
      by (simp add: get_end_date_def span sum to_date_def day)
  qed
  then show ?thesis by (simp only: q_def td_def)
qed

text \<open>
  Claim C2, as it is written, says that whenever start date and duration are present the
  computation yields an end date. It does not at the end of the calendar: for a session
  of two days starting on day 3652059, the 31 December 9999, and for a session of minus
  one day starting on day 1, the sum of start and duration is not a day Python can
  represent, and the addition raises \<^verbatim>\<open>OverflowError\<close>.
\<close>

theorem get_end_date_overflow_counterexample:
  "get_end_date
     \<lparr>session.name = ''Algebra I'', start_date = Some 3652059, duration = 2,
      seats = 0, active = True, color = 0, instructor_id = None, course_id = 1,
      attendee_ids = [], taken_seats = 0, end_date = None, hours = 0,
      attendees_count = 0\<rparr>
   = Inl OverflowError
   \<and> get_end_date
     \<lparr>session.name = ''Algebra I'', start_date = Some 1, duration = - 1,
      seats = 0, active = True, color = 0, instructor_id = None, course_id = 1,
      attendee_ids = [], taken_seats = 0, end_date = None, hours = 0,
      attendees_count = 0\<rparr>
   = Inl OverflowError"
  by (simp add: get_end_date_def timedelta_def datetime_add_def from_string_def)

text \<open>
  Claim C2, amended: when the start date is empty or the duration is zero, the end date
  is the start date. Otherwise take the day that holds the instant one second before the
  start of the start date plus the duration: when it is a day of the calendar (day 1 to
  day 3652059) it is the end date, and when it is not the computation raises
  \<^verbatim>\<open>OverflowError\<close>. For a whole number \<open>n\<close> of days that day is the start date plus
  \<open>n - 1\<close> days, so a session of one day ends on the day it starts and a session of five
  days that starts on a Monday ends four days later, on the Friday.
\<close>

theorem get_end_date_inclusive:
  "(start_date r = None \<or> duration r = 0 \<longrightarrow>
      get_end_date r = Inr (r\<lparr>end_date := start_date r\<rparr>))
   \<and> (start_date r = Some sd \<and> 1 \<le> sd \<and> sd \<le> 3652059 \<and> duration r \<noteq> 0 \<longrightarrow>
        (\<exists>e. from_string e \<le> from_string sd + round (duration r * 86400000000) - 1000000
           \<and> from_string sd + round (duration r * 86400000000) - 1000000 < from_string (e + 1)
           \<and> get_end_date r =
               (if 1 \<le> e \<and> e \<le> 3652059 then Inr (r\<lparr>end_date := Some e\<rparr>)
                else Inl OverflowError)))
   \<and> (start_date r = Some sd \<and> 1 \<le> sd \<and> sd \<le> 3652059 \<and> duration r = of_int n \<and> n \<noteq> 0 \<longrightarrow>
        get_end_date r =
          (if 1 \<le> sd + n - 1 \<and> sd + n - 1 \<le> 3652059
           then Inr (r\<lparr>end_date := Some (sd + n - 1)\<rparr>)
           else Inl OverflowError))
   \<and> (start_date r = Some sd \<and> 1 \<le> sd \<and> sd \<le> 3652059 \<and> duration r = 1 \<longrightarrow>
        get_end_date r = Inr (r\<lparr>end_date := Some sd\<rparr>))
   \<and> (start_date r = Some sd \<and> 1 \<le> sd \<and> sd + 4 \<le> 3652059 \<and> duration r = 5 \<longrightarrow>
        get_end_date r = Inr (r\<lparr>end_date := Some (sd + 4)\<rparr>))"
proof (intro conjI impI)
  assume "start_date r = None \<or> duration r = 0"
  then show "get_end_date r = Inr (r\<lparr>end_date := start_date r\<rparr>)"
    by (rule get_end_date_absent)
next
  assume a: "start_date r = Some sd \<and> 1 \<le> sd \<and> sd \<le> 3652059 \<and> duration r \<noteq> 0"
  define t where "t = from_string sd + round (duration r * 86400000000) - 1000000"
  define e where "e = to_date t"
  have "t = from_string sd + (round (duration r * 86400000000) - 1000000)"
    by (simp add: t_def)
  then have e: "e = sd + (round (duration r * 86400000000) - 1000000) div 86400000000"
    by (simp only: e_def to_date_shift)
  from a have p: "start_date r = Some sd" "1 \<le> sd" "sd \<le> 3652059" "duration r \<noteq> 0"
    by simp_all
  have "get_end_date r =
      (if 1 \<le> e \<and> e \<le> 3652059 then Inr (r\<lparr>end_date := Some e\<rparr>) else Inl OverflowError)"
    unfolding e by (rule get_end_date_present [OF p])
  moreover have "from_string e \<le> t \<and> t < from_string (e + 1)"
    unfolding e_def by (rule day_bounds)
  ultimately show "\<exists>e. from_string e \<le> from_string sd + round (duration r * 86400000000) - 1000000
           \<and> from_string sd + round (duration r * 86400000000) - 1000000 < from_string (e + 1)
           \<and> get_end_date r =
               (if 1 \<le> e \<and> e \<le> 3652059 then Inr (r\<lparr>end_date := Some e\<rparr>)
                else Inl OverflowError)"
    unfolding t_def by blast
next
  assume a: "start_date r = Some sd \<and> 1 \<le> sd \<and> sd \<le> 3652059 \<and> duration r = of_int n \<and> n \<noteq> 0"
  then have "duration r \<noteq> 0" by simp
  with a show "get_end_date r =
          (if 1 \<le> sd + n - 1 \<and> sd + n - 1 \<le> 3652059
           then Inr (r\<lparr>end_date := Some (sd + n - 1)\<rparr>)
           else Inl OverflowError)"
    by (simp add: get_end_date_present span_whole)
next
  assume a: "start_date r = Some sd \<and> 1 \<le> sd \<and> sd \<le> 3652059 \<and> duration r = 1"
  then have "duration r \<noteq> 0" by simp
  with a show "get_end_date r = Inr (r\<lparr>end_date := Some sd\<rparr>)"
    using span_whole [of 1] by (simp add: get_end_date_present)
next
  assume a: "start_date r = Some sd \<and> 1 \<le> sd \<and> sd + 4 \<le> 3652059 \<and> duration r = 5"
  then have "duration r \<noteq> 0" and "sd \<le> 3652059" by simp_all
  with a show "get_end_date r = Inr (r\<lparr>end_date := Some (sd + 4)\<rparr>)"
    using span_whole [of 5] by (simp add: get_end_date_present)
qed

text \<open>
  An instance: day 738886 is Monday 1 January 2024. A session of five days starting then
  ends on day 738890, the Friday; a session of one day ends on the Monday; a session
  with no start date has no end date; a session of one day on the last day of the
  calendar ends on that day, and one of five days raises.
\<close>

theorem get_end_date_inclusive_witness:
  "get_end_date
     \<lparr>session.name = ''Algebra I'', start_date = Some 738886, duration = 5,
      seats = 0, active = True, color = 0, instructor_id = None, course_id = 1,
      attendee_ids = [], taken_seats = 0, end_date = None, hours = 0,
      attendees_count = 0\<rparr>
   = Inr
     \<lparr>session.name = ''Algebra I'', start_date = Some 738886, duration = 5,
      seats = 0, active = True, color = 0, instructor_id = None, course_id = 1,
      attendee_ids = [], taken_seats = 0, end_date = Some 738890, hours = 0,
      attendees_count = 0\<rparr>
   \<and> get_end_date
     \<lparr>session.name = ''Algebra I'', start_date = Some 738886, duration = 1,
      seats = 0, active = True, color = 0, instructor_id = None, course_id = 1,
      attendee_ids = [], taken_seats = 0, end_date = None, hours = 0,
      attendees_count = 0\<rparr>
   = Inr
     \<lparr>session.name = ''Algebra I'', start_date = Some 738886, duration = 1,
      seats = 0, active = True, color = 0, instructor_id = None, course_id = 1,
      attendee_ids = [], taken_seats = 0, end_date = Some 738886, hours = 0,
      attendees_count = 0\<rparr>
   \<and> get_end_date
     \<lparr>session.name = ''Algebra I'', start_date = None, duration = 5,
      seats = 0, active = True, color = 0, instructor_id = None, course_id = 1,
      attendee_ids = [], taken_seats = 0, end_date = None, hours = 0,
      attendees_count = 0\<rparr>
   = Inr
     \<lparr>session.name = ''Algebra I'', start_date = None, duration = 5,
      seats = 0, active = True, color = 0, instructor_id = None, course_id = 1,
      attendee_ids = [], taken_seats = 0, end_date = None, hours = 0,
      attendees_count = 0\<rparr>
   \<and> get_end_date
     \<lparr>session.name = ''Algebra I'', start_date = Some 3652059, duration = 1,
      seats = 0, active = True, color = 0, instructor_id = None, course_id = 1,
      attendee_ids = [], taken_seats = 0, end_date = None, hours = 0,
      attendees_count = 0\<rparr>
   = Inr
     \<lparr>session.name = ''Algebra I'', start_date = Some 3652059, duration = 1,
      seats = 0, active = True, color = 0, instructor_id = None, course_id = 1,
      attendee_ids = [], taken_seats = 0, end_date = Some 3652059, hours = 0,
      attendees_count = 0\<rparr>
   \<and> get_end_date
     \<lparr>session.name = ''Algebra I'', start_date = Some 3652059, duration = 5,
      seats = 0, active = True, color = 0, instructor_id = None, course_id = 1,
      attendee_ids = [], taken_seats = 0, end_date = None, hours = 0,
      attendees_count = 0\<rparr>
   = Inl OverflowError"
  using get_end_date_inclusive
      [of "\<lparr>session.name = ''Algebra I'', start_date = Some 738886, duration = 5,
            seats = 0, active = True, color = 0, instructor_id = None, course_id = 1,
            attendee_ids = [], taken_seats = 0, end_date = None, hours = 0,
            attendees_count = 0\<rparr>"
          738886 5]
    get_end_date_inclusive
      [of "\<lparr>session.name = ''Algebra I'', start_date = Some 738886, duration = 1,
            seats = 0, active = True, color = 0, instructor_id = None, course_id = 1,
            attendee_ids = [], taken_seats = 0, end_date = None, hours = 0,
            attendees_count = 0\<rparr>"
          738886 1]
    get_end_date_inclusive
      [of "\<lparr>session.name = ''Algebra I'', start_date = None, duration = 5,
            seats = 0, active = True, color = 0, instructor_id = None, course_id = 1,
            attendee_ids = [], taken_seats = 0, end_date = None, hours = 0,
            attendees_count = 0\<rparr>"
          1 5]
    get_end_date_inclusive
      [of "\<lparr>session.name = ''Algebra I'', start_date = Some 3652059, duration = 1,
            seats = 0, active = True, color = 0, instructor_id = None, course_id = 1,
            attendee_ids = [], taken_seats = 0, end_date = None, hours = 0,
            attendees_count = 0\<rparr>"
          3652059 1]
    get_end_date_inclusive
      [of "\<lparr>session.name = ''Algebra I'', start_date = Some 3652059, duration = 5,
            seats = 0, active = True, color = 0, instructor_id = None, course_id = 1,
            attendee_ids = [], taken_seats = 0, end_date = None, hours = 0,
            attendees_count = 0\<rparr>"
          3652059 5]
  by simp

subsection \<open>From end date to duration\<close>

lemma set_end_date_absent:
  "start_date r = None \<or> end_date r = None \<Longrightarrow> set_end_date r = r"
  by (auto simp: set_end_date_def)

lemma set_end_date_present:
  "start_date r = Some a \<Longrightarrow> end_date r = Some b \<Longrightarrow>
     set_end_date r = r\<lparr>duration := of_int (b - a + 1)\<rparr>"
  by (simp add: set_end_date_def days_between)

text \<open>
  Claim C3: the inverse leaves the record as it is when the start date or the end date
  is empty, and otherwise sets the duration to the number of days from the start date
  to the end date, plus one, and changes nothing else.
\<close>

theorem set_end_date_inclusive:
  "(start_date r = None \<or> end_date r = None \<longrightarrow> set_end_date r = r)
   \<and> (start_date r = Some a \<and> end_date r = Some b \<longrightarrow>
        set_end_date r = r\<lparr>duration := of_int (b - a + 1)\<rparr>)"
  using set_end_date_absent set_end_date_present by blast

text \<open>
  An instance: from Monday 738886 to Friday 738890 the duration becomes 5; with no end
  date the duration stays 3.
\<close>

theorem set_end_date_inclusive_witness:
  "duration (set_end_date
      \<lparr>session.name = ''Algebra I'', start_date = Some 738886, duration = 0,
       seats = 0, active = True, color = 0, instructor_id = None, course_id = 1,
       attendee_ids = [], taken_seats = 0, end_date = Some 738890, hours = 0,
       attendees_count = 0\<rparr>)
   = 5
   \<and> duration (set_end_date
      \<lparr>session.name = ''Algebra I'', start_date = Some 738886, duration = 3,
       seats = 0, active = True, color = 0, instructor_id = None, course_id = 1,
       attendee_ids = [], taken_seats = 0, end_date = None, hours = 0,
       attendees_count = 0\<rparr>)
   = 3"
  using set_end_date_inclusive
      [of "\<lparr>session.name = ''Algebra I'', start_date = Some 738886, duration = 0,
            seats = 0, active = True, color = 0, instructor_id = None, course_id = 1,
            attendee_ids = [], taken_seats = 0, end_date = Some 738890, hours = 0,
            attendees_count = 0\<rparr>"
          738886 738890]
    set_end_date_inclusive
      [of "\<lparr>session.name = ''Algebra I'', start_date = Some 738886, duration = 3,
            seats = 0, active = True, color = 0, instructor_id = None, course_id = 1,
            attendee_ids = [], taken_seats = 0, end_date = None, hours = 0,
            attendees_count = 0\<rparr>"
          738886 0]
  by simp

subsection \<open>The round trip through the end date\<close>

lemma roundtrip_duration:
  assumes "start_date r = Some sd" and "1 \<le> sd" and "sd \<le> 3652059"
  shows "(case get_end_date (r\<lparr>duration := d\<rparr>) of
            Inl e \<Rightarrow> None
          | Inr r1 \<Rightarrow> Some (duration (set_end_date (r1\<lparr>end_date := end_date r1\<rparr>))))
     = (if d = 0 then Some 1
        else if 1 \<le> sd + (round (d * 86400000000) - 1000000) div 86400000000
            \<and> sd + (round (d * 86400000000) - 1000000) div 86400000000 \<le> 3652059
        then Some (of_int ((round (d * 86400000000) - 1000000) div 86400000000 + 1))
        else None)"
proof (cases "d = 0")
  case True
  have "days (from_string sd - from_string sd) = 0" by (simp only: days_between)
  with True assms(1) show ?thesis
    by (simp add: get_end_date_absent set_end_date_def)
next
  case False
  have s: "start_date (r\<lparr>duration := d\<rparr>) = Some sd" and d: "duration (r\<lparr>duration := d\<rparr>) \<noteq> 0"
    using assms(1) False by simp_all
  show ?thesis
    using False assms(1)
    by (simp add: get_end_date_present [OF s assms(2,3) d] set_end_date_def days_between)
qed

text \<open>
  Claim C1, as it is written, says that for every duration \<open>d\<close> the field can hold,
  setting the duration to \<open>d\<close>, computing the end date and writing that end date back
  gives the duration \<open>d\<close> again. It does not for half a day: the session ends on the day
  it starts, and the inverse makes that a duration of one day. Nor for a duration of
  zero, which the forward computation treats as absent and the inverse turns into one
  day. Nor for five days starting on day 3652059, the last day of the calendar, where
  the end date cannot be computed.
\<close>

theorem end_date_roundtrip_counterexample:
  "get_end_date
     \<lparr>session.name = ''Algebra I'', start_date = Some 738886, duration = 1 / 2,
      seats = 0, active = True, color = 0, instructor_id = None, course_id = 1,
      attendee_ids = [], taken_seats = 0, end_date = None, hours = 0,
      attendees_count = 0\<rparr>
   = Inr
     \<lparr>session.name = ''Algebra I'', start_date = Some 738886, duration = 1 / 2,
      seats = 0, active = True, color = 0, instructor_id = None, course_id = 1,
      attendee_ids = [], taken_seats = 0, end_date = Some 738886, hours = 0,
      attendees_count = 0\<rparr>
   \<and> duration (set_end_date
     \<lparr>session.name = ''Algebra I'', start_date = Some 738886, duration = 1 / 2,
      seats = 0, active = True, color = 0, instructor_id = None, course_id = 1,
      attendee_ids = [], taken_seats = 0, end_date = Some 738886, hours = 0,
      attendees_count = 0\<rparr>)
   \<noteq> 1 / 2
   \<and> get_end_date
     \<lparr>session.name = ''Algebra I'', start_date = Some 738886, duration = 0,
      seats = 0, active = True, color = 0, instructor_id = None, course_id = 1,
      attendee_ids = [], taken_seats = 0, end_date = None, hours = 0,
      attendees_count = 0\<rparr>
   = Inr
     \<lparr>session.name = ''Algebra I'', start_date = Some 738886, duration = 0,
      seats = 0, active = True, color = 0, instructor_id = None, course_id = 1,
      attendee_ids = [], taken_seats = 0, end_date = Some 738886, hours = 0,
      attendees_count = 0\<rparr>
   \<and> duration (set_end_date
     \<lparr>session.name = ''Algebra I'', start_date = Some 738886, duration = 0,
      seats = 0, active = True, color = 0, instructor_id = None, course_id = 1,
      attendee_ids = [], taken_seats = 0, end_date = Some 738886, hours = 0,
      attendees_count = 0\<rparr>)
   \<noteq> 0
   \<and> get_end_date
     \<lparr>session.name = ''Algebra I'', start_date = Some 3652059, duration = 5,
      seats = 0, active = True, color = 0, instructor_id = None, course_id = 1,
      attendee_ids = [], taken_seats = 0, end_date = None, hours = 0,
      attendees_count = 0\<rparr>
   = Inl OverflowError"
  by (simp add: get_end_date_def set_end_date_def from_string_def timedelta_def datetime_add_def
      to_date_def days_def)

text \<open>
  Claim C1, amended: for a session with a start date, setting the duration to \<open>d\<close>,
  computing the end date and writing that same end date back through the inverse gives
  the duration \<open>d\<close> again exactly when \<open>d\<close> is a whole number of days other than zero
  and the end date, \<open>d - 1\<close> days after the start date, is a day of the calendar.
\<close>

theorem end_date_roundtrip:
  assumes "start_date r = Some sd" and "1 \<le> sd" and "sd \<le> 3652059"
  shows "((case get_end_date (r\<lparr>duration := d\<rparr>) of
             Inl e \<Rightarrow> None
           | Inr r1 \<Rightarrow> Some (duration (set_end_date (r1\<lparr>end_date := end_date r1\<rparr>))))
          = Some d)
         = (d \<in> \<int> \<and> d \<noteq> 0 \<and> 1 \<le> sd + \<lfloor>d\<rfloor> - 1 \<and> sd + \<lfloor>d\<rfloor> - 1 \<le> 3652059)"
proof (cases "d \<in> \<int> \<and> d \<noteq> 0")
  case True
  then obtain n where n: "d = of_int n" and "n \<noteq> 0" by (auto elim: Ints_cases)
  then show ?thesis
    using True by (simp add: roundtrip_duration [OF assms] span_whole)
next
  case False
  have "(case get_end_date (r\<lparr>duration := d\<rparr>) of
             Inl e \<Rightarrow> None
           | Inr r1 \<Rightarrow> Some (duration (set_end_date (r1\<lparr>end_date := end_date r1\<rparr>))))
      \<noteq> Some d"
  proof (cases "d = 0")
    case True
    then show ?thesis by (simp add: roundtrip_duration [OF assms])
  next
    case nz: False
    with False have "d \<notin> \<int>" by simp
    have "real_of_int j + 1 \<noteq> d" for j :: int
    proof
      assume "real_of_int j + 1 = d"
      then have "d = of_int (j + 1)" by simp
      with \<open>d \<notin> \<int>\<close> show False by (metis Ints_of_int)
    qed
    then show ?thesis
      using nz by (simp add: roundtrip_duration [OF assms])
  qed
  with False show ?thesis by simp
qed

text \<open>
  An instance: a duration of five days, set on a session that starts on day 738886,
  comes back as five days.
\<close>

theorem end_date_roundtrip_witness:
  "start_date
     \<lparr>session.name = ''Algebra I'', start_date = Some 738886, duration = 1,
      seats = 0, active = True, color = 0, instructor_id = None, course_id = 1,
      attendee_ids = [], taken_seats = 0, end_date = None, hours = 0,
      attendees_count = 0\<rparr>
   = Some 738886
   \<and> (case get_end_date
       (\<lparr>session.name = ''Algebra I'', start_date = Some 738886, duration = 1,
         seats = 0, active = True, color = 0, instructor_id = None, course_id = 1,
         attendee_ids = [], taken_seats = 0, end_date = None, hours = 0,
         attendees_count = 0\<rparr>
        \<lparr>duration := 5\<rparr>) of
        Inl e \<Rightarrow> None
      | Inr r1 \<Rightarrow> Some (duration (set_end_date (r1\<lparr>end_date := end_date r1\<rparr>))))
   = Some 5"
  using end_date_roundtrip
      [of "\<lparr>session.name = ''Algebra I'', start_date = Some 738886, duration = 1,
            seats = 0, active = True, color = 0, instructor_id = None, course_id = 1,
            attendee_ids = [], taken_seats = 0, end_date = None, hours = 0,
            attendees_count = 0\<rparr>"
          738886 5]
  by simp

subsection \<open>Hours\<close>

lemma float_round_hundredths: "\<exists>k::int. float_round x = of_int k / 100"
proof (cases "x < 0")
  case True
  then have "float_round x = of_int (- \<lfloor>- x * 100 + 1 / 2\<rfloor>) / 100"
    by (simp add: float_round_def)
  then show ?thesis by blast
next
  case False
  then have "float_round x = of_int \<lfloor>x * 100 + 1 / 2\<rfloor> / 100"
    by (simp add: float_round_def)
  then show ?thesis by blast
qed

lemma floor_half_near:
  fixes y :: real
  shows "\<bar>of_int \<lfloor>y + 1 / 2\<rfloor> - y\<bar> \<le> 1 / 2"
proof -
  have "of_int \<lfloor>y + 1 / 2\<rfloor> \<le> y + 1 / 2" and "y + 1 / 2 < of_int \<lfloor>y + 1 / 2\<rfloor> + 1"
    by linarith+
  then show ?thesis by linarith
qed

lemma float_round_near: "\<bar>float_round x - x\<bar> \<le> 1 / 200"
proof (cases "x < 0")
  case True
  define m :: real where "m = of_int \<lfloor>- x * 100 + 1 / 2\<rfloor>"
  have "\<bar>m - (- x * 100)\<bar> \<le> 1 / 2"
    unfolding m_def by (rule floor_half_near)
  moreover from True have "float_round x = - (m / 100)"
    by (simp add: float_round_def m_def)
  ultimately show ?thesis by linarith
next
  case False
  define m :: real where "m = of_int \<lfloor>x * 100 + 1 / 2\<rfloor>"
  have "\<bar>m - x * 100\<bar> \<le> 1 / 2"
    unfolding m_def by (rule floor_half_near)
  moreover from False have "float_round x = m / 100"
    by (simp add: float_round_def m_def)
  ultimately show ?thesis by linarith
qed

lemma float_round_minus: "float_round (- x) = - float_round x"
  by (simp add: float_round_def)

lemma floor_int_half: "\<lfloor>real_of_int k + 1 / 2\<rfloor> = k"
  by linarith

lemma float_round_fixed: "float_round (of_int k / 100) = of_int k / 100"
proof (cases "k < 0")
  case True
  have "\<lfloor>real_of_int (- k) + 1 / 2\<rfloor> = - k" by (rule floor_int_half)
  with True show ?thesis
    by (simp add: float_round_def)
next
  case False
  with floor_int_half [of k] show ?thesis
    by (simp add: float_round_def)
qed

text \<open>
  Claim C9, as it is written, says that writing \<open>h\<close> hours sets the duration to
  \<open>h / 24\<close> and that the two computations undo each other. They do not for one hour:
  the duration is stored with two decimals, so it becomes 0.04 and not 1/24, and the
  hours computed from it are 0.96 and not 1.
\<close>

theorem hours_rounding_counterexample:
  "duration (set_hours
     (\<lparr>session.name = ''Algebra I'', start_date = Some 738886, duration = 5,
       seats = 0, active = True, color = 0, instructor_id = None, course_id = 1,
       attendee_ids = [], taken_seats = 0, end_date = None, hours = 0,
       attendees_count = 0\<rparr>
      \<lparr>hours := 1\<rparr>))
   \<noteq> 1 / 24
   \<and> hours (get_hours (set_hours
     (\<lparr>session.name = ''Algebra I'', start_date = Some 738886, duration = 5,
       seats = 0, active = True, color = 0, instructor_id = None, course_id = 1,
       attendee_ids = [], taken_seats = 0, end_date = None, hours = 0,
       attendees_count = 0\<rparr>
      \<lparr>hours := 1\<rparr>)))
   \<noteq> 1"
  by (simp add: get_hours_def set_hours_def float_round_def)

text \<open>
  Claim C9, amended: the computed hours are the duration times 24. Writing \<open>h\<close> hours
  sets the duration to \<open>h / 24\<close> rounded to two decimals: a whole number of hundredths,
  at most half a hundredth away from \<open>h / 24\<close>, rounded the same way for both signs. From
  a duration with two decimals, computing the hours and writing them back gives that
  duration again; from \<open>h\<close> hours, writing them and computing the hours gives 24 times
  the rounded duration.
\<close>

theorem hours_duration_rounded:
  "hours (get_hours r) = duration r * 24
   \<and> duration (set_hours (r\<lparr>hours := h\<rparr>)) = float_round (h / 24)
   \<and> (\<exists>k::int. float_round x = of_int k / 100)
   \<and> \<bar>float_round x - x\<bar> \<le> 1 / 200
   \<and> float_round (- x) = - float_round x
   \<and> (duration r = of_int k / 100 \<longrightarrow> duration (set_hours (get_hours r)) = duration r)
   \<and> hours (get_hours (set_hours (r\<lparr>hours := h\<rparr>))) = float_round (h / 24) * 24"
proof (intro conjI impI)
  show "hours (get_hours r) = duration r * 24"
    by (simp add: get_hours_def)
  show "duration (set_hours (r\<lparr>hours := h\<rparr>)) = float_round (h / 24)"
    by (simp add: set_hours_def)
  show "\<exists>k::int. float_round x = of_int k / 100"
    by (rule float_round_hundredths)
  show "\<bar>float_round x - x\<bar> \<le> 1 / 200"
    by (rule float_round_near)
  show "float_round (- x) = - float_round x"
    by (rule float_round_minus)
  show "hours (get_hours (set_hours (r\<lparr>hours := h\<rparr>))) = float_round (h / 24) * 24"
    by (simp add: get_hours_def set_hours_def)
next
  assume a: "duration r = of_int k / 100"
  have "duration (set_hours (get_hours r)) = float_round (duration r)"
    by (simp add: get_hours_def set_hours_def)
  also have "\<dots> = duration r"
    unfolding a by (rule float_round_fixed)
  finally show "duration (set_hours (get_hours r)) = duration r" .
qed

text \<open>
  An instance: five days are 120 hours; 36 hours are a day and a half; one hour is
  stored as 0.04 days; an eighth of a day is stored as 0.13 days; and a duration of 0.07
  days comes back from its hours.
\<close>

theorem hours_duration_rounded_witness:
  "hours (get_hours
     \<lparr>session.name = ''Algebra I'', start_date = Some 738886, duration = 5,
      seats = 0, active = True, color = 0, instructor_id = None, course_id = 1,
      attendee_ids = [], taken_seats = 0, end_date = None, hours = 0,
      attendees_count = 0\<rparr>)
   = 120
   \<and> duration (set_hours
     (\<lparr>session.name = ''Algebra I'', start_date = Some 738886, duration = 5,
       seats = 0, active = True, color = 0, instructor_id = None, course_id = 1,
       attendee_ids = [], taken_seats = 0, end_date = None, hours = 0,
       attendees_count = 0\<rparr>
      \<lparr>hours := 36\<rparr>))
   = 3 / 2
   \<and> duration (set_hours
     (\<lparr>session.name = ''Algebra I'', start_date = Some 738886, duration = 5,
       seats = 0, active = True, color = 0, instructor_id = None, course_id = 1,
       attendee_ids = [], taken_seats = 0, end_date = None, hours = 0,
       attendees_count = 0\<rparr>
      \<lparr>hours := 1\<rparr>))
   = 4 / 100
   \<and> duration (set_hours
     (\<lparr>session.name = ''Algebra I'', start_date = Some 738886, duration = 5,
       seats = 0, active = True, color = 0, instructor_id = None, course_id = 1,
       attendee_ids = [], taken_seats = 0, end_date = None, hours = 0,
       attendees_count = 0\<rparr>
      \<lparr>hours := 3\<rparr>))
   = 13 / 100
   \<and> duration (set_hours (get_hours
     \<lparr>session.name = ''Algebra I'', start_date = Some 738886, duration = 7 / 100,
      seats = 0, active = True, color = 0, instructor_id = None, course_id = 1,
      attendee_ids = [], taken_seats = 0, end_date = None, hours = 0,
      attendees_count = 0\<rparr>))
   = 7 / 100"
proof -
  let ?r = "\<lparr>session.name = ''Algebra I'', start_date = Some 738886, duration = 5,
             seats = 0, active = True, color = 0, instructor_id = None, course_id = 1,
             attendee_ids = [], taken_seats = 0, end_date = None, hours = 0,
             attendees_count = 0\<rparr>"
  let ?s = "\<lparr>session.name = ''Algebra I'', start_date = Some 738886, duration = 7 / 100,
             seats = 0, active = True, color = 0, instructor_id = None, course_id = 1,
             attendee_ids = [], taken_seats = 0, end_date = None, hours = 0,
             attendees_count = 0\<rparr>"
  from hours_duration_rounded [of ?r]
  have "hours (get_hours ?r) = duration ?r * 24"
    by (rule conjunct1)
  then have a: "hours (get_hours ?r) = 120"
    by simp
  have b: "duration (set_hours (?r\<lparr>hours := h\<rparr>)) = float_round (h / 24)" for h
    using hours_duration_rounded [of ?r h] by blast
  have b36: "duration (set_hours (?r\<lparr>hours := 36\<rparr>)) = 3 / 2"
    unfolding b by (simp add: float_round_def)
  have b1: "duration (set_hours (?r\<lparr>hours := 1\<rparr>)) = 4 / 100"
    unfolding b by (simp add: float_round_def)
  have b3: "duration (set_hours (?r\<lparr>hours := 3\<rparr>)) = 13 / 100"
    unfolding b by (simp add: float_round_def)
  have "duration ?s = of_int 7 / 100"
    by simp
  with hours_duration_rounded [of ?s _ _ 7]
  have "duration (set_hours (get_hours ?s)) = duration ?s"
    by blast
  then have c: "duration (set_hours (get_hours ?s)) = 7 / 100"
    by simp
  from a b36 b1 b3 c show ?thesis
    by (intro conjI)
qed

subsection \<open>Taken seats\<close>

text \<open>
  Claim C6: computing the taken seats never raises; with zero seats the result is 0,
  however many attendees there are, and with a positive number of seats it is 100 times
  the count of attendees divided by the seats.
\<close>

theorem taken_seats_guarded:
  "(seats r = 0 \<longrightarrow> compute_taken_seats r = Inr (r\<lparr>taken_seats := 0\<rparr>))
   \<and> (seats r > 0 \<longrightarrow>
        compute_taken_seats r =
          Inr (r\<lparr>taken_seats :=
                 100 * real_of_int (attendees_count (get_attendees_count r))
                   / real_of_int (seats r)\<rparr>))
   \<and> (\<exists>r'. compute_taken_seats r = Inr r')"
  by (simp add: compute_taken_seats_def truediv_def get_attendees_count_def)

text \<open>
  An instance: two attendees and no seats give 0; two attendees and four seats give 50.
\<close>

theorem taken_seats_guarded_witness:
  "compute_taken_seats
     \<lparr>session.name = ''Algebra I'', start_date = Some 738886, duration = 0,
      seats = 0, active = True, color = 0, instructor_id = None, course_id = 1,
      attendee_ids = [7, 8], taken_seats = 0, end_date = None, hours = 0,
      attendees_count = 2\<rparr>
   = Inr
     (\<lparr>session.name = ''Algebra I'', start_date = Some 738886, duration = 0,
       seats = 0, active = True, color = 0, instructor_id = None, course_id = 1,
       attendee_ids = [7, 8], taken_seats = 0, end_date = None, hours = 0,
       attendees_count = 2\<rparr>
      \<lparr>taken_seats := 0\<rparr>)
   \<and> compute_taken_seats
     \<lparr>session.name = ''Algebra I'', start_date = Some 738886, duration = 0,
      seats = 4, active = True, color = 0, instructor_id = None, course_id = 1,
      attendee_ids = [7, 8], taken_seats = 0, end_date = None, hours = 0,
      attendees_count = 2\<rparr>
   = Inr
     (\<lparr>session.name = ''Algebra I'', start_date = Some 738886, duration = 0,
       seats = 4, active = True, color = 0, instructor_id = None, course_id = 1,
       attendee_ids = [7, 8], taken_seats = 0, end_date = None, hours = 0,
       attendees_count = 2\<rparr>
      \<lparr>taken_seats := 50\<rparr>)"
  using taken_seats_guarded
      [of "\<lparr>session.name = ''Algebra I'', start_date = Some 738886, duration = 0,
            seats = 0, active = True, color = 0, instructor_id = None, course_id = 1,
            attendee_ids = [7, 8], taken_seats = 0, end_date = None, hours = 0,
            attendees_count = 2\<rparr>"]
    taken_seats_guarded
      [of "\<lparr>session.name = ''Algebra I'', start_date = Some 738886, duration = 0,
            seats = 4, active = True, color = 0, instructor_id = None, course_id = 1,
            attendee_ids = [7, 8], taken_seats = 0, end_date = None, hours = 0,
            attendees_count = 2\<rparr>"]
  by (simp add: get_attendees_count_def)

text \<open>
  Claim C10: with a negative number of seats the guard does not apply: the taken seats
  are 100 times the count of attendees divided by the seats, which is below zero as soon
  as there is an attendee.
\<close>

theorem taken_seats_negative_seats:
  assumes "seats r < 0"
  shows "compute_taken_seats r =
           Inr (r\<lparr>taken_seats :=
                  100 * real_of_int (attendees_count (get_attendees_count r))
                    / real_of_int (seats r)\<rparr>)
         \<and> (attendee_ids r \<noteq> [] \<longrightarrow>
              (\<exists>r'. compute_taken_seats r = Inr r' \<and> taken_seats r' < 0))"
  using assms
  by (simp add: compute_taken_seats_def truediv_def get_attendees_count_def divide_less_0_iff)

text \<open>An instance: two attendees and minus four seats give minus 50.\<close>

theorem taken_seats_negative_seats_witness:
  "seats
     \<lparr>session.name = ''Algebra I'', start_date = Some 738886, duration = 0,
      seats = - 4, active = True, color = 0, instructor_id = None, course_id = 1,
      attendee_ids = [7, 8], taken_seats = 0, end_date = None, hours = 0,
      attendees_count = 2\<rparr>
   < 0
   \<and> compute_taken_seats
     \<lparr>session.name = ''Algebra I'', start_date = Some 738886, duration = 0,
      seats = - 4, active = True, color = 0, instructor_id = None, course_id = 1,
      attendee_ids = [7, 8], taken_seats = 0, end_date = None, hours = 0,
      attendees_count = 2\<rparr>
   = Inr
     (\<lparr>session.name = ''Algebra I'', start_date = Some 738886, duration = 0,
       seats = - 4, active = True, color = 0, instructor_id = None, course_id = 1,
       attendee_ids = [7, 8], taken_seats = 0, end_date = None, hours = 0,
       attendees_count = 2\<rparr>
      \<lparr>taken_seats := - 50\<rparr>)"
  using taken_seats_negative_seats
      [of "\<lparr>session.name = ''Algebra I'', start_date = Some 738886, duration = 0,
            seats = - 4, active = True, color = 0, instructor_id = None, course_id = 1,
            attendee_ids = [7, 8], taken_seats = 0, end_date = None, hours = 0,
            attendees_count = 2\<rparr>"]
  by (simp add: get_attendees_count_def)

subsection \<open>The instructor is not an attendee\<close>

text \<open>
  Claim C7: the constraint raises nothing but the validation error with its message,
  and raises it whenever the instructor is set and is one of the attendees. A write that
  sets the instructor to a partner who is among the attendees, as they are after the
  write, fails with that error, and the session keeps the state it had.
\<close>

theorem instructor_attendee_rejected:
  "(check_instructor_not_in_attendees r
        = Inl (ValidationError ''A session's instructor can't be an attendee'')
      \<or> check_instructor_not_in_attendees r = Inr ())
   \<and> ((\<exists>x. instructor_id r = Some x \<and> x \<in> set (attendee_ids r)) \<longrightarrow>
         check_instructor_not_in_attendees r
           = Inl (ValidationError ''A session's instructor can't be an attendee''))
   \<and> (instructor_id_val v = Some (Some x)
        \<and> x \<in> set (case attendee_ids_val v of None \<Rightarrow> attendee_ids r | Some ids \<Rightarrow> ids) \<longrightarrow>
         write_session r v
           = Inl (ValidationError ''A session's instructor can't be an attendee'')
         \<and> committed r (write_session r v) = r)"
  by (auto simp: check_instructor_not_in_attendees_def instructor_message_def write_session_def
      apply_vals_def committed_def get_attendees_count_def split: option.splits)

text \<open>
  An instance: partners 7 and 8 attend; making partner 7 the instructor is refused and
  the session stays without an instructor.
\<close>

theorem instructor_attendee_rejected_witness:
  "write_session
     \<lparr>session.name = ''Algebra I'', start_date = Some 738886, duration = 0,
      seats = 10, active = True, color = 0, instructor_id = None, course_id = 1,
      attendee_ids = [7, 8], taken_seats = 0, end_date = None, hours = 0,
      attendees_count = 2\<rparr>
     \<lparr>instructor_id_val = Some (Some 7), attendee_ids_val = None\<rparr>
   = Inl (ValidationError ''A session's instructor can't be an attendee'')
   \<and> committed
     \<lparr>session.name = ''Algebra I'', start_date = Some 738886, duration = 0,
      seats = 10, active = True, color = 0, instructor_id = None, course_id = 1,
      attendee_ids = [7, 8], taken_seats = 0, end_date = None, hours = 0,
      attendees_count = 2\<rparr>
     (write_session
       \<lparr>session.name = ''Algebra I'', start_date = Some 738886, duration = 0,
        seats = 10, active = True, color = 0, instructor_id = None, course_id = 1,
        attendee_ids = [7, 8], taken_seats = 0, end_date = None, hours = 0,
        attendees_count = 2\<rparr>
       \<lparr>instructor_id_val = Some (Some 7), attendee_ids_val = None\<rparr>)
   = \<lparr>session.name = ''Algebra I'', start_date = Some 738886, duration = 0,
      seats = 10, active = True, color = 0, instructor_id = None, course_id = 1,
      attendee_ids = [7, 8], taken_seats = 0, end_date = None, hours = 0,
      attendees_count = 2\<rparr>"
proof -
  let ?r = "\<lparr>session.name = ''Algebra I'', start_date = Some 738886, duration = 0,
             seats = 10, active = True, color = 0, instructor_id = None, course_id = 1,
             attendee_ids = [7, 8], taken_seats = 0, end_date = None, hours = 0,
             attendees_count = 2\<rparr>"
  let ?v = "\<lparr>instructor_id_val = Some (Some 7), attendee_ids_val = None\<rparr>"
  have "instructor_id_val ?v = Some (Some 7)
      \<and> 7 \<in> set (case attendee_ids_val ?v of None \<Rightarrow> attendee_ids ?r | Some ids \<Rightarrow> ids)"
    by simp
  with instructor_attendee_rejected [of ?r ?v 7] show ?thesis
    by blast
qed

end
